theory Spec2Isabelle
  imports Main "HOL-Library.AList"
begin

section \<open>Python values that travel as JSON\<close>

text \<open>
  The client sends its parameters with \<^verbatim>\<open>json=params\<close> and reads the answer with
  \<^verbatim>\<open>resp.json()\<close>. Every value that crosses the wire is therefore a JSON value; Python's
  \<^verbatim>\<open>None\<close> is \<open>JNull\<close>. A \<^verbatim>\<open>dict\<close> with string keys is an association list
  in insertion order; it is read with \<open>map_of\<close> and written with \<open>AList.update\<close>, which
  replaces the value of a key that is present and appends a new key at the end, as
  \<^verbatim>\<open>d[k] = v\<close> does. Floating point numbers are not modelled.
\<close>

datatype json =
    JNull
  | JBool bool
  | JInt int
  | JStr string
  | JList "json list"
  | JObj "(string \<times> json) list"

type_synonym dict = "(string \<times> json) list"

definition dict_get :: "dict \<Rightarrow> string \<Rightarrow> json option" where
  "dict_get d k = map_of d k"

definition dict_set :: "dict \<Rightarrow> string \<Rightarrow> json \<Rightarrow> dict" where
  "dict_set d k v = AList.update k v d"

definition keys :: "dict \<Rightarrow> string list" where
  "keys d = map fst d"

text \<open>Python's truth value of an object, as \<^verbatim>\<open>if x:\<close> and \<^verbatim>\<open>not x\<close> test it.\<close>

fun truthy :: "json \<Rightarrow> bool" where
  "truthy JNull = False"
| "truthy (JBool b) = b"
| "truthy (JInt i) = (i \<noteq> 0)"
| "truthy (JStr s) = (s \<noteq> [])"
| "truthy (JList xs) = (xs \<noteq> [])"
| "truthy (JObj kvs) = (kvs \<noteq> [])"

text \<open>An optional argument (\<^verbatim>\<open>str | None\<close>, \<^verbatim>\<open>int | None\<close>, ...) as the value put in a dict.\<close>

definition opt :: "('a \<Rightarrow> json) \<Rightarrow> 'a option \<Rightarrow> json" where
  "opt f x = (case x of None \<Rightarrow> JNull | Some v \<Rightarrow> f v)"

section \<open>The document model (types.py)\<close>

text \<open>
  \<^verbatim>\<open>NodeElement\<close> has a tag, optional attributes and an optional list of children; a
  child is a plain string or another \<^verbatim>\<open>NodeElement\<close>, as the class's docstring says.
\<close>

datatype 'n child = Text string | Node 'n

datatype NodeElement =
  NodeElement (tag: string) (attrs: "dict option") (children: "NodeElement child list option")

text \<open>
  \<^verbatim>\<open>as_dict\<close>: the result starts as \<^verbatim>\<open>{'tag': self.tag}\<close>; \<^verbatim>\<open>if self.attrs:\<close> holds for a
  dict that is neither \<^verbatim>\<open>None\<close> nor empty, \<^verbatim>\<open>if self.children:\<close> for a list that is neither
  \<^verbatim>\<open>None\<close> nor empty. The loop appends to the list stored under \<^verbatim>\<open>'children'\<close>, which
  starts empty; \<open>append_children\<close> is that loop, its second argument the list so far.
\<close>

function as_dict :: "NodeElement \<Rightarrow> dict"
  and append_children :: "NodeElement child list \<Rightarrow> json list \<Rightarrow> json list" where
  "as_dict (NodeElement t a c) =
     (let result = [(''tag'', JStr t)];
          result = (case a of
                      None \<Rightarrow> result
                    | Some d \<Rightarrow> if d \<noteq> [] then dict_set result ''attrs'' (JObj d) else result);
          result = (case c of
                      None \<Rightarrow> result
                    | Some cs \<Rightarrow>
                        if cs \<noteq> [] then dict_set result ''children'' (JList (append_children cs []))
                        else result)
      in result)"
| "append_children [] acc = acc"
| "append_children (Node n # cs) acc = append_children cs (acc @ [JObj (as_dict n)])"
| "append_children (Text s # cs) acc = append_children cs (acc @ [JStr s])"
  by pat_completeness auto
termination
  by (relation "measure (case_sum size (\<lambda>(cs, acc). size_list (size_child size) cs))") auto

text \<open>The wire form of one child, for stating what the loop produces.\<close>

definition child_wire :: "NodeElement child \<Rightarrow> json" where
  "child_wire c = (case c of Text s \<Rightarrow> JStr s | Node n \<Rightarrow> JObj (as_dict n))"

section \<open>Typed result records (types.py)\<close>

text \<open>
  The dataclasses are built with \<^verbatim>\<open>Account(**data)\<close>, \<^verbatim>\<open>Page(**data)\<close> and
  \<^verbatim>\<open>PageViews(**data)\<close>. A dataclass does not check the types of its fields, so every
  field holds the JSON value the server sent, and a field with default \<^verbatim>\<open>None\<close> that the
  server left out is \<open>JNull\<close>. The call raises \<^verbatim>\<open>TypeError\<close> when \<^verbatim>\<open>data\<close> is not a
  mapping, when it has a key that is not a field, and when a field without default is
  missing.
\<close>

datatype error =
    AttributeError string
  | RuntimeError string
  | TransportFailure
  | ClientResponseError int string
  | DecodeError
  | TelegraphException string
  | KeyError string
  | TypeError

definition kwarg :: "dict \<Rightarrow> string \<Rightarrow> json" where
  "kwarg kw k = (case dict_get kw k of None \<Rightarrow> JNull | Some v \<Rightarrow> v)"

definition accepts :: "string list \<Rightarrow> string list \<Rightarrow> dict \<Rightarrow> bool" where
  "accepts required optional kw =
     (list_all (\<lambda>k. k \<in> set (required @ optional)) (keys kw) \<and>
      list_all (\<lambda>k. k \<in> set (keys kw)) required)"

record Account =
  short_name :: json
  author_name :: json
  author_url :: json
  access_token :: json
  auth_url :: json
  page_count :: json

definition Account_init :: "json \<Rightarrow> error + Account" where
  "Account_init data =
     (case data of
        JObj kw \<Rightarrow>
          if accepts [''short_name'', ''author_name'', ''author_url'']
                     [''access_token'', ''auth_url'', ''page_count''] kw
          then Inr \<lparr>short_name = kwarg kw ''short_name'',
                    author_name = kwarg kw ''author_name'',
                    author_url = kwarg kw ''author_url'',
                    access_token = kwarg kw ''access_token'',
                    auth_url = kwarg kw ''auth_url'',
                    page_count = kwarg kw ''page_count''\<rparr>
          else Inl TypeError
      | _ \<Rightarrow> Inl TypeError)"

record Page =
  path :: json
  url :: json
  title :: json
  description :: json
  author_name :: json
  author_url :: json
  image_url :: json
  content :: json
  views :: json
  can_edit :: json

definition Page_init :: "json \<Rightarrow> error + Page" where
  "Page_init data =
     (case data of
        JObj kw \<Rightarrow>
          if accepts [''path'', ''url'', ''title'', ''description'']
                     [''author_name'', ''author_url'', ''image_url'', ''content'', ''views'',
                      ''can_edit''] kw
          then Inr \<lparr>path = kwarg kw ''path'',
                    url = kwarg kw ''url'',
                    title = kwarg kw ''title'',
                    description = kwarg kw ''description'',
                    author_name = kwarg kw ''author_name'',
                    author_url = kwarg kw ''author_url'',
                    image_url = kwarg kw ''image_url'',
                    content = kwarg kw ''content'',
                    views = kwarg kw ''views'',
                    can_edit = kwarg kw ''can_edit''\<rparr>
          else Inl TypeError
      | _ \<Rightarrow> Inl TypeError)"

record PageViews =
  views :: json

definition PageViews_init :: "json \<Rightarrow> error + PageViews" where
  "PageViews_init data =
     (case data of
        JObj kw \<Rightarrow> if accepts [''views''] [] kw then Inr \<lparr>views = kwarg kw ''views''\<rparr>
                   else Inl TypeError
      | _ \<Rightarrow> Inl TypeError)"

section \<open>The client (api.py)\<close>

text \<open>
  An attribute of a Python object exists only once it has been assigned: reading
  \<^verbatim>\<open>self.session\<close> before any assignment raises \<^verbatim>\<open>AttributeError\<close>, which is not the
  same as reading \<^verbatim>\<open>None\<close>. \<open>Missing\<close> is the attribute that was never assigned.
\<close>

datatype 'a attribute = Missing | Bound 'a

record ClientSession =
  timeout_total :: nat

record Telegraph =
  base_url :: string
  access_token :: json
  session :: "ClientSession option attribute"

text \<open>\<^verbatim>\<open>__init__\<close> assigns \<^verbatim>\<open>base_url\<close> and \<^verbatim>\<open>access_token\<close>, and nothing else.\<close>

definition Telegraph_init :: "string option \<Rightarrow> Telegraph" where
  "Telegraph_init token =
     \<lparr>base_url = ''https://api.telegra.ph/'',
      access_token = opt JStr token,
      session = Missing\<rparr>"

text \<open>\<^verbatim>\<open>__aenter__\<close> creates the session, with a total timeout of 10 seconds.\<close>

definition aenter :: "Telegraph \<Rightarrow> Telegraph" where
  "aenter self = self\<lparr>session := Bound (Some \<lparr>timeout_total = 10\<rparr>)\<rparr>"

text \<open>
  The world outside the repository. A request is the URL posted to and the JSON body;
  the requests issued so far are kept in a list, and the server's answer to the latest
  one may depend on all of them. \<open>Failed\<close> is \<^verbatim>\<open>session.post\<close> raising (no connection, a
  timeout); \<open>Response status text body\<close> carries the status code, the raw text and the
  decoded body, \<open>None\<close> when \<^verbatim>\<open>resp.json()\<close> raises. \<open>py_str\<close> is what Python's formatting
  prints for a value that is not a string.
\<close>

type_synonym request = "string \<times> dict"

datatype http = Failed | Response int string "json option"

record env =
  respond :: "request list \<Rightarrow> http"
  py_str :: "json \<Rightarrow> string"

definition format_value :: "env \<Rightarrow> json \<Rightarrow> string" where
  "format_value e v = (case v of JStr s \<Rightarrow> s | _ \<Rightarrow> py_str e v)"

text \<open>\<^verbatim>\<open>data[k]\<close> for a string key: only a dict has one, and only for a key it holds.\<close>

definition subscript :: "json \<Rightarrow> string \<Rightarrow> error + json" where
  "subscript data k =
     (case data of
        JObj d \<Rightarrow> (case dict_get d k of None \<Rightarrow> Inl (KeyError k) | Some v \<Rightarrow> Inr v)
      | _ \<Rightarrow> Inl TypeError)"

text \<open>
  The \<^verbatim>\<open>async with self.session.post(...) as resp\<close> statement of \<^verbatim>\<open>_request\<close>: what
  becomes of the server's answer. A status other than 200 raises before the body is
  decoded; a body whose \<^verbatim>\<open>'ok'\<close> is false raises \<^verbatim>\<open>TelegraphException\<close> with the
  formatted \<^verbatim>\<open>'error'\<close>; otherwise the \<^verbatim>\<open>'result'\<close> is returned.
\<close>

definition unwrap :: "env \<Rightarrow> http \<Rightarrow> error + json" where
  "unwrap e resp =
     (case resp of
        Failed \<Rightarrow> Inl TransportFailure
      | Response status text body \<Rightarrow>
          if status \<noteq> 200
          then Inl (ClientResponseError status
                      (''HTTP '' @ py_str e (JInt status) @ '': '' @ text))
          else (case body of
                  None \<Rightarrow> Inl DecodeError
                | Some data \<Rightarrow>
                    (case subscript data ''ok'' of
                       Inl err \<Rightarrow> Inl err
                     | Inr ok \<Rightarrow>
                         if \<not> truthy ok
                         then (case subscript data ''error'' of
                                 Inl err \<Rightarrow> Inl err
                               | Inr msg \<Rightarrow>
                                   Inl (TelegraphException
                                          (''API Error: '' @ format_value e msg)))
                         else subscript data ''result'')))"

text \<open>
  \<^verbatim>\<open>_request\<close>. It reads the client and never assigns to it, so it returns its result
  and the list of requests only. The session is checked first; then the stored token is
  put into the parameters, unless the method is \<^verbatim>\<open>createAccount\<close> or the token is
  falsy; then the request is posted.
\<close>

definition request :: "env \<Rightarrow> string \<Rightarrow> dict \<Rightarrow> Telegraph \<Rightarrow> request list
    \<Rightarrow> (error + json) \<times> request list" where
  \<open>request e method params self sent =
     (case session self of
        Missing \<Rightarrow> (Inl (AttributeError ''session''), sent)
      | Bound None \<Rightarrow>
          (Inl (RuntimeError
             ''Session is not initialized. Use "async with Telegraph(...)" or pass a session.''),
           sent)
      | Bound (Some s) \<Rightarrow>
          (let params =
                 (if method \<noteq> ''createAccount'' \<and> truthy (Telegraph.access_token self)
                  then dict_set params ''access_token'' (Telegraph.access_token self)
                  else params);
               sent = sent @ [(base_url self @ ''/'' @ method, params)]
           in (unwrap e (respond e sent), sent)))\<close>

text \<open>
  Each operation takes the client and the requests issued so far, and returns its result
  (or the exception raised), the client and the requests afterwards. An argument declared
  \<^verbatim>\<open>T | None = None\<close> is an \<open>option\<close>; \<open>None\<close> is the caller leaving it out. An
  argument whose name is also a constant of the theory is written with a prime.
\<close>

type_synonym 'a outcome = "(error + 'a) \<times> Telegraph \<times> request list"

definition create_account :: "env \<Rightarrow> string \<Rightarrow> string \<Rightarrow> string \<Rightarrow> Telegraph \<Rightarrow> request list
    \<Rightarrow> Account outcome" where
  "create_account e short_name' author_name' author_url' self sent =
     (let params = [(''short_name'', JStr short_name'),
                    (''author_name'', JStr author_name'),
                    (''author_url'', JStr author_url')]
      in case request e ''createAccount'' params self sent of
           (Inl err, sent) \<Rightarrow> (Inl err, self, sent)
         | (Inr data, sent) \<Rightarrow>
             (case Account_init data of
                Inl err \<Rightarrow> (Inl err, self, sent)
              | Inr account \<Rightarrow>
                  (Inr account,
                   self\<lparr>Telegraph.access_token := Account.access_token account\<rparr>, sent)))"

definition create_page :: "env \<Rightarrow> string \<Rightarrow> NodeElement list \<Rightarrow> string option \<Rightarrow> string option
    \<Rightarrow> bool \<Rightarrow> Telegraph \<Rightarrow> request list \<Rightarrow> Page outcome" where
  "create_page e title' content' author_name' author_url' return_content self sent =
     (let content' = map (\<lambda>node. JObj (as_dict node)) content';
          params = [(''access_token'', Telegraph.access_token self),
                    (''title'', JStr title'),
                    (''content'', JList content'),
                    (''author_name'', opt JStr author_name'),
                    (''author_url'', opt JStr author_url'),
                    (''return_content'', JBool return_content)]
      in case request e ''createPage'' params self sent of
           (Inl err, sent) \<Rightarrow> (Inl err, self, sent)
         | (Inr data, sent) \<Rightarrow>
             (case Page_init data of
                Inl err \<Rightarrow> (Inl err, self, sent)
              | Inr page \<Rightarrow> (Inr page, self, sent)))"

definition edit_account_info :: "env \<Rightarrow> string option \<Rightarrow> string option \<Rightarrow> string option
    \<Rightarrow> Telegraph \<Rightarrow> request list \<Rightarrow> Account outcome" where
  "edit_account_info e short_name' author_name' author_url' self sent =
     (let params = [(''short_name'', opt JStr short_name'),
                    (''author_name'', opt JStr author_name'),
                    (''author_url'', opt JStr author_url')]
      in case request e ''editAccountInfo'' params self sent of
           (Inl err, sent) \<Rightarrow> (Inl err, self, sent)
         | (Inr data, sent) \<Rightarrow>
             (case Account_init data of
                Inl err \<Rightarrow> (Inl err, self, sent)
              | Inr account \<Rightarrow>
                  (Inr account,
                   self\<lparr>Telegraph.access_token := Account.access_token account\<rparr>, sent)))"

definition edit_page :: "env \<Rightarrow> string \<Rightarrow> string \<Rightarrow> NodeElement list \<Rightarrow> string option
    \<Rightarrow> string option \<Rightarrow> bool \<Rightarrow> Telegraph \<Rightarrow> request list \<Rightarrow> Page outcome" where
  "edit_page e path' title' content' author_name' author_url' return_content self sent =
     (let content' = map (\<lambda>node. JObj (as_dict node)) content';
          params = [(''path'', JStr path'),
                    (''title'', JStr title'),
                    (''content'', JList content'),
                    (''author_name'', opt JStr author_name'),
                    (''author_url'', opt JStr author_url'),
                    (''return_content'', JBool return_content)]
      in case request e ''editPage'' params self sent of
           (Inl err, sent) \<Rightarrow> (Inl err, self, sent)
         | (Inr data, sent) \<Rightarrow>
             (case Page_init data of
                Inl err \<Rightarrow> (Inl err, self, sent)
              | Inr page \<Rightarrow> (Inr page, self, sent)))"

definition get_account_info :: "env \<Rightarrow> string list option \<Rightarrow> Telegraph \<Rightarrow> request list
    \<Rightarrow> Account outcome" where
  "get_account_info e fields' self sent =
     (let params = [(''fields'', opt (\<lambda>fs. JList (map JStr fs)) fields')]
      in case request e ''getAccountInfo'' params self sent of
           (Inl err, sent) \<Rightarrow> (Inl err, self, sent)
         | (Inr data, sent) \<Rightarrow>
             (case Account_init data of
                Inl err \<Rightarrow> (Inl err, self, sent)
              | Inr account \<Rightarrow> (Inr account, self, sent)))"

definition get_page :: "env \<Rightarrow> string \<Rightarrow> bool option \<Rightarrow> Telegraph \<Rightarrow> request list
    \<Rightarrow> Page outcome" where
  "get_page e path' return_content self sent =
     (let params = [(''path'', JStr path'),
                    (''return_content'', opt JBool return_content)]
      in case request e ''getPage'' params self sent of
           (Inl err, sent) \<Rightarrow> (Inl err, self, sent)
         | (Inr data, sent) \<Rightarrow>
             (case Page_init data of
                Inl err \<Rightarrow> (Inl err, self, sent)
              | Inr page \<Rightarrow> (Inr page, self, sent)))"

text \<open>
  \<^verbatim>\<open>[Page(**page_data) for page_data in data['pages']]\<close>: iterating a list gives its
  elements, a dict its keys, a string its characters; nothing else of JSON is iterable.
  The comprehension stops at the first \<^verbatim>\<open>Page(**page_data)\<close> that raises.
\<close>

definition iterate :: "json \<Rightarrow> error + json list" where
  "iterate v =
     (case v of
        JList xs \<Rightarrow> Inr xs
      | JObj d \<Rightarrow> Inr (map JStr (keys d))
      | JStr s \<Rightarrow> Inr (map (\<lambda>c. JStr [c]) s)
      | _ \<Rightarrow> Inl TypeError)"

fun pages_of :: "json list \<Rightarrow> error + Page list" where
  "pages_of [] = Inr []"
| "pages_of (page_data # rest) =
     (case Page_init page_data of
        Inl err \<Rightarrow> Inl err
      | Inr page \<Rightarrow> (case pages_of rest of Inl err \<Rightarrow> Inl err | Inr pages \<Rightarrow> Inr (page # pages)))"

definition get_page_list :: "env \<Rightarrow> int option \<Rightarrow> int option \<Rightarrow> Telegraph \<Rightarrow> request list
    \<Rightarrow> Page list outcome" where
  "get_page_list e limit offset self sent =
     (let params = [(''offset'', opt JInt offset),
                    (''limit'', opt JInt limit)]
      in case request e ''getPageList'' params self sent of
           (Inl err, sent) \<Rightarrow> (Inl err, self, sent)
         | (Inr data, sent) \<Rightarrow>
             (case subscript data ''pages'' of
                Inl err \<Rightarrow> (Inl err, self, sent)
              | Inr page_datas \<Rightarrow>
                  (case iterate page_datas of
                     Inl err \<Rightarrow> (Inl err, self, sent)
                   | Inr items \<Rightarrow>
                       (case pages_of items of
                          Inl err \<Rightarrow> (Inl err, self, sent)
                        | Inr pages \<Rightarrow> (Inr pages, self, sent)))))"

definition get_views :: "env \<Rightarrow> string \<Rightarrow> int option \<Rightarrow> int option \<Rightarrow> int option \<Rightarrow> int option
    \<Rightarrow> Telegraph \<Rightarrow> request list \<Rightarrow> PageViews outcome" where
  "get_views e path' year month day hour self sent =
     (let params = [(''year'', opt JInt year),
                    (''month'', opt JInt month),
                    (''day'', opt JInt day),
                    (''hour'', opt JInt hour)]
      in case request e ''getViews'' params self sent of
           (Inl err, sent) \<Rightarrow> (Inl err, self, sent)
         | (Inr data, sent) \<Rightarrow>
             (case PageViews_init data of
                Inl err \<Rightarrow> (Inl err, self, sent)
              | Inr views' \<Rightarrow> (Inr views', self, sent)))"

definition revoke_access_token :: "env \<Rightarrow> Telegraph \<Rightarrow> request list \<Rightarrow> Account outcome" where
  "revoke_access_token e self sent =
     (case request e ''getViews'' [] self sent of
        (Inl err, sent) \<Rightarrow> (Inl err, self, sent)
      | (Inr data, sent) \<Rightarrow>
          (case Account_init data of
             Inl err \<Rightarrow> (Inl err, self, sent)
           | Inr account \<Rightarrow> (Inr account, self, sent)))"

text \<open>
  The public interface of the client as one type: a call names an operation with its
  arguments, and \<open>invoke\<close> runs the operation it names. Properties of every operation are
  stated once, for every call.
\<close>

datatype call =
    CreateAccount string string string
  | CreatePage string "NodeElement list" "string option" "string option" bool
  | EditAccountInfo "string option" "string option" "string option"
  | EditPage string string "NodeElement list" "string option" "string option" bool
  | GetAccountInfo "string list option"
  | GetPage string "bool option"
  | GetPageList "int option" "int option"
  | GetViews string "int option" "int option" "int option" "int option"
  | RevokeAccessToken

datatype returned =
    AccountR Account
  | PageR Page
  | PagesR "Page list"
  | ViewsR PageViews

definition returning :: "('a \<Rightarrow> returned) \<Rightarrow> 'a outcome \<Rightarrow> returned outcome" where
  "returning f out = (case out of (r, self, sent) \<Rightarrow> (map_sum id f r, self, sent))"

fun invoke :: "env \<Rightarrow> call \<Rightarrow> Telegraph \<Rightarrow> request list \<Rightarrow> returned outcome" where
  "invoke e (CreateAccount sn an au) self sent =
     returning AccountR (create_account e sn an au self sent)"
| "invoke e (CreatePage t c an au rc) self sent =
     returning PageR (create_page e t c an au rc self sent)"
| "invoke e (EditAccountInfo sn an au) self sent =
     returning AccountR (edit_account_info e sn an au self sent)"
| "invoke e (EditPage p t c an au rc) self sent =
     returning PageR (edit_page e p t c an au rc self sent)"
| "invoke e (GetAccountInfo fs) self sent =
     returning AccountR (get_account_info e fs self sent)"
| "invoke e (GetPage p rc) self sent =
     returning PageR (get_page e p rc self sent)"
| "invoke e (GetPageList l off) self sent =
     returning PagesR (get_page_list e l off self sent)"
| "invoke e (GetViews p y m d h) self sent =
     returning ViewsR (get_views e p y m d h self sent)"
| "invoke e RevokeAccessToken self sent =
     returning AccountR (revoke_access_token e self sent)"

text \<open>
  The optional arguments a call leaves out: the names of the parameters declared
  \<^verbatim>\<open>= None\<close> in the operation's signature for which the call passes \<open>None\<close>.
\<close>

fun omitted :: "call \<Rightarrow> string list" where
  "omitted (CreateAccount sn an au) = []"
| "omitted (CreatePage t c an au rc) =
     (if an = None then [''author_name''] else []) @
     (if au = None then [''author_url''] else [])"
| "omitted (EditAccountInfo sn an au) =
     (if sn = None then [''short_name''] else []) @
     (if an = None then [''author_name''] else []) @
     (if au = None then [''author_url''] else [])"
| "omitted (EditPage p t c an au rc) =
     (if an = None then [''author_name''] else []) @
     (if au = None then [''author_url''] else [])"
| "omitted (GetAccountInfo fs) = (if fs = None then [''fields''] else [])"
| "omitted (GetPage p rc) = (if rc = None then [''return_content''] else [])"
| "omitted (GetPageList l off) =
     (if l = None then [''limit''] else []) @
     (if off = None then [''offset''] else [])"
| "omitted (GetViews p y m d h) =
     (if y = None then [''year''] else []) @
     (if m = None then [''month''] else []) @
     (if d = None then [''day''] else []) @
     (if h = None then [''hour''] else [])"
| "omitted RevokeAccessToken = []"

subsection \<open>Servers and answers to run the client against\<close>

text \<open>
  A server that answers every request with status 200 and the given body. The raw text
  is read only when the status is not 200, and \<open>py_str\<close> only for values that are not
  strings; neither happens with these answers.
\<close>

definition answering :: "json \<Rightarrow> env" where
  "answering body = \<lparr>respond = (\<lambda>sent. Response 200 [] (Some body)), py_str = (\<lambda>v. [])\<rparr>"


definition page_not_found :: json where
  "page_not_found = JObj [(''ok'', JBool False), (''error'', JStr ''PAGE_NOT_FOUND'')]"

definition rotated_account :: json where
  "rotated_account =
     JObj [(''ok'', JBool True),
           (''result'', JObj [(''short_name'', JStr ''Sandbox''),
                             (''author_name'', JStr ''Anonymous''),
                             (''author_url'', JStr []),
                             (''access_token'', JStr ''new''),
                             (''auth_url'', JStr ''https://edit.telegra.ph/auth/new'')])]"

definition page_data :: "string \<Rightarrow> json" where
  "page_data p =
     JObj [(''path'', JStr p),
           (''url'', JStr (''https://telegra.ph/'' @ p)),
           (''title'', JStr p),
           (''description'', JStr [])]"

definition page_list :: "int \<Rightarrow> json" where
  "page_list n =
     JObj [(''ok'', JBool True),
           (''result'', JObj [(''total_count'', JInt n),
                             (''pages'', JList [page_data ''C-03'', page_data ''B-02'',
                                                page_data ''A-01''])])]"

text \<open>The \<^verbatim>\<open>Page\<close> that \<^verbatim>\<open>Page(**page_data)\<close> builds from \<open>page_data p\<close>.\<close>

definition page_record :: "string \<Rightarrow> Page" where
  "page_record p =
     \<lparr>Page.path = JStr p, Page.url = JStr (''https://telegra.ph/'' @ p), Page.title = JStr p,
      Page.description = JStr [], Page.author_name = JNull, Page.author_url = JNull,
      Page.image_url = JNull, Page.content = JNull, Page.views = JNull,
      Page.can_edit = JNull\<rparr>"

section \<open>Serialization\<close>

lemma append_children_map: "append_children cs acc = acc @ map child_wire cs"
  by (induction cs arbitrary: acc rule: list.induct)
     (auto simp: child_wire_def split: child.splits)

lemma as_dict_example:
  "as_dict (NodeElement ''p'' None
      (Some [Text ''Hello, '', Node (NodeElement ''b'' None (Some [Text ''world!'']))])) =
   [(''tag'', JStr ''p''),
    (''children'', JList [JStr ''Hello, '',
        JObj [(''tag'', JStr ''b''), (''children'', JList [JStr ''world!''])]])]"
  by (simp add: dict_set_def)

text \<open>
  Claim C4. A node whose attributes are \<^verbatim>\<open>None\<close> or the empty dict, and whose children
  are \<^verbatim>\<open>None\<close> or the empty list, serializes to the dict with the single key
  \<^verbatim>\<open>'tag'\<close>: there is no \<^verbatim>\<open>'attrs'\<close> key and no \<^verbatim>\<open>'children'\<close> key.
\<close>

theorem as_dict_omission:
  assumes "a = None \<or> a = Some []" and "c = None \<or> c = Some []"
  shows "as_dict (NodeElement t a c) = [(''tag'', JStr t)]
       \<and> keys (as_dict (NodeElement t a c)) = [''tag'']
       \<and> dict_get (as_dict (NodeElement t a c)) ''attrs'' = None
       \<and> dict_get (as_dict (NodeElement t a c)) ''children'' = None"
proof -
  from assms have "as_dict (NodeElement t a c) = [(''tag'', JStr t)]"
    by auto
  then show ?thesis
    by (simp add: keys_def dict_get_def)
qed

theorem as_dict_omission_witness:
  "((Some [] :: dict option) = None \<or> (Some [] :: dict option) = Some [])
   \<and> ((None :: NodeElement child list option) = None
        \<or> (None :: NodeElement child list option) = Some [])
   \<and> as_dict (NodeElement ''br'' (Some []) None) = [(''tag'', JStr ''br'')]
   \<and> keys (as_dict (NodeElement ''br'' (Some []) None)) = [''tag'']
   \<and> dict_get (as_dict (NodeElement ''br'' (Some []) None)) ''attrs'' = None
   \<and> dict_get (as_dict (NodeElement ''br'' (Some []) None)) ''children'' = None"
proof -
  have a: "(Some [] :: dict option) = None \<or> (Some [] :: dict option) = Some []"
    by simp
  have c: "(None :: NodeElement child list option) = None
           \<or> (None :: NodeElement child list option) = Some []"
    by simp
  from as_dict_omission [OF a c, of "''br''"] a c show ?thesis by blast
qed

text \<open>
  Claim C5. Serialization keeps the tag, the attributes and the children of a node, the
  children in their order: the result is the \<^verbatim>\<open>'tag'\<close> entry with the node's tag, then
  the \<^verbatim>\<open>'attrs'\<close> entry with the node's attributes when there are any, then the
  \<^verbatim>\<open>'children'\<close> entry when there are children, whose value is the list of the children
  in the same order, a string child as that string and a node child as its own
  serialization. The node is arbitrary, so this holds at every level of nesting.
\<close>

theorem as_dict_preserves:
  "as_dict (NodeElement t a c) =
     (''tag'', JStr t)
     # (case a of None \<Rightarrow> [] | Some d \<Rightarrow> if d = [] then [] else [(''attrs'', JObj d)])
     @ (case c of None \<Rightarrow> []
        | Some cs \<Rightarrow> if cs = [] then [] else [(''children'', JList (map child_wire cs))])"
  by (simp add: dict_set_def append_children_map split: option.splits)

section \<open>Requests\<close>

lemma dict_get_set: "dict_get (dict_set d k v) k = Some v"
  by (simp add: dict_get_def dict_set_def update_conv')

lemma dict_get_set_other: "k \<noteq> k' \<Longrightarrow> dict_get (dict_set d k' v) k = dict_get d k"
  by (simp add: dict_get_def dict_set_def update_conv')

lemma request_sent:
  assumes "session self = Bound (Some s)"
  shows "snd (request e method params self sent) =
           sent @ [(base_url self @ ''/'' @ method,
                    if method \<noteq> ''createAccount'' \<and> truthy (Telegraph.access_token self)
                    then dict_set params ''access_token'' (Telegraph.access_token self)
                    else params)]"
  using assms by (simp add: request_def Let_def)



section \<open>The response envelope\<close>




section \<open>What each operation sends\<close>

lemma sent_create_account:
  "snd (snd (create_account e sn an au self sent)) =
     snd (request e ''createAccount''
            [(''short_name'', JStr sn), (''author_name'', JStr an), (''author_url'', JStr au)]
            self sent)"
  by (simp add: create_account_def split: prod.splits sum.splits)

lemma sent_create_page:
  "snd (snd (create_page e t c an au rc self sent)) =
     snd (request e ''createPage''
            [(''access_token'', Telegraph.access_token self), (''title'', JStr t),
             (''content'', JList (map (\<lambda>node. JObj (as_dict node)) c)),
             (''author_name'', opt JStr an), (''author_url'', opt JStr au),
             (''return_content'', JBool rc)]
            self sent)"
  by (simp add: create_page_def split: prod.splits sum.splits)

lemma sent_edit_account_info:
  "snd (snd (edit_account_info e sn an au self sent)) =
     snd (request e ''editAccountInfo''
            [(''short_name'', opt JStr sn), (''author_name'', opt JStr an),
             (''author_url'', opt JStr au)]
            self sent)"
  by (simp add: edit_account_info_def split: prod.splits sum.splits)

lemma sent_edit_page:
  "snd (snd (edit_page e p t c an au rc self sent)) =
     snd (request e ''editPage''
            [(''path'', JStr p), (''title'', JStr t),
             (''content'', JList (map (\<lambda>node. JObj (as_dict node)) c)),
             (''author_name'', opt JStr an), (''author_url'', opt JStr au),
             (''return_content'', JBool rc)]
            self sent)"
  by (simp add: edit_page_def split: prod.splits sum.splits)

lemma sent_get_account_info:
  "snd (snd (get_account_info e fs self sent)) =
     snd (request e ''getAccountInfo''
            [(''fields'', opt (\<lambda>fs. JList (map JStr fs)) fs)] self sent)"
  by (simp add: get_account_info_def split: prod.splits sum.splits)

lemma sent_get_page:
  "snd (snd (get_page e p rc self sent)) =
     snd (request e ''getPage''
            [(''path'', JStr p), (''return_content'', opt JBool rc)] self sent)"
  by (simp add: get_page_def split: prod.splits sum.splits)

lemma sent_get_page_list:
  "snd (snd (get_page_list e l off self sent)) =
     snd (request e ''getPageList''
            [(''offset'', opt JInt off), (''limit'', opt JInt l)] self sent)"
  by (simp add: get_page_list_def split: prod.splits sum.splits)

lemma sent_get_views:
  "snd (snd (get_views e p y m d h self sent)) =
     snd (request e ''getViews''
            [(''year'', opt JInt y), (''month'', opt JInt m), (''day'', opt JInt d),
             (''hour'', opt JInt h)] self sent)"
  by (simp add: get_views_def split: prod.splits sum.splits)

lemma sent_revoke_access_token:
  "snd (snd (revoke_access_token e self sent)) = snd (request e ''getViews'' [] self sent)"
  by (simp add: revoke_access_token_def split: prod.splits sum.splits)

lemma sent_returning: "snd (snd (returning f out)) = snd (snd out)"
  by (simp add: returning_def split: prod.splits)

lemmas sent_simps = sent_returning sent_create_account sent_create_page
  sent_edit_account_info sent_edit_page sent_get_account_info sent_get_page
  sent_get_page_list sent_get_views sent_revoke_access_token

lemma dict_get_Nil: "dict_get [] k = None"
  by (simp add: dict_get_def)

lemma dict_get_Cons: "dict_get ((k, v) # d) k' = (if k = k' then Some v else dict_get d k')"
  by (simp add: dict_get_def)

lemma attach_keeps:
  "k \<noteq> ''access_token'' \<Longrightarrow>
   dict_get (if b then dict_set d ''access_token'' v else d) k = dict_get d k"
  by (simp add: dict_get_set_other)

lemma keys_dict_set: "set (keys (dict_set d k v)) = insert k (set (keys d))"
  by (simp add: keys_def dict_set_def dom_update)

lemma keys_Cons: "keys ((k, v) # d) = k # keys d"
  by (simp add: keys_def)

lemma keys_Nil: "keys [] = []"
  by (simp add: keys_def)

text \<open>
  Claim C8. With the session acquired, every operation issues exactly one request. For
  every operation other than account creation, when the stored token is truthy (a
  non-empty string), the parameters of that request hold the stored token under
  \<^verbatim>\<open>'access_token'\<close>. The parameters of a create-account request have no
  \<^verbatim>\<open>'access_token'\<close> key, whatever the stored token.
\<close>

theorem token_attached:
  assumes "session self = Bound (Some s)"
  shows "\<exists>url params.
           snd (snd (invoke e c self sent)) = sent @ [(url, params)] \<and>
           (case c of
              CreateAccount sn an au \<Rightarrow> dict_get params ''access_token'' = None
            | _ \<Rightarrow> truthy (Telegraph.access_token self) \<longrightarrow>
                    dict_get params ''access_token'' = Some (Telegraph.access_token self))"
proof (cases c)
  case (CreateAccount sn an au)
  then show ?thesis
    by (simp add: sent_simps request_sent [OF assms] dict_get_def)
qed (simp_all add: sent_simps request_sent [OF assms] dict_get_set)

theorem token_attached_witness:
  "session (aenter (Telegraph_init (Some ''T''))) = Bound (Some \<lparr>timeout_total = 10\<rparr>)
   \<and> truthy (Telegraph.access_token (aenter (Telegraph_init (Some ''T''))))
   \<and> (\<exists>url params.
         snd (snd (invoke (answering page_not_found) (GetPage ''Sample-Page-12-15'' None)
                     (aenter (Telegraph_init (Some ''T''))) [])) = [(url, params)]
         \<and> dict_get params ''access_token'' = Some (JStr ''T''))
   \<and> (\<exists>url params.
         snd (snd (invoke (answering page_not_found) (CreateAccount ''Sandbox'' ''Anonymous'' [])
                     (aenter (Telegraph_init (Some ''T''))) [])) = [(url, params)]
         \<and> dict_get params ''access_token'' = None)"
proof -
  have h1: "session (aenter (Telegraph_init (Some ''T''))) = Bound (Some \<lparr>timeout_total = 10\<rparr>)"
    by (simp add: aenter_def)
  have h2: "truthy (Telegraph.access_token (aenter (Telegraph_init (Some ''T''))))"
    by (simp add: aenter_def Telegraph_init_def opt_def)
  have t: "Telegraph.access_token (aenter (Telegraph_init (Some ''T''))) = JStr ''T''"
    by (simp add: aenter_def Telegraph_init_def opt_def)
  from token_attached [OF h1, of "answering page_not_found" "GetPage ''Sample-Page-12-15'' None" "[]"]
  have a: "\<exists>url params.
         snd (snd (invoke (answering page_not_found) (GetPage ''Sample-Page-12-15'' None)
                     (aenter (Telegraph_init (Some ''T''))) [])) = [(url, params)]
         \<and> dict_get params ''access_token'' = Some (JStr ''T'')"
    using h2 by (simp add: t)
  from token_attached [OF h1, of "answering page_not_found"
      "CreateAccount ''Sandbox'' ''Anonymous'' []" "[]"]
  have b: "\<exists>url params.
         snd (snd (invoke (answering page_not_found) (CreateAccount ''Sandbox'' ''Anonymous'' [])
                     (aenter (Telegraph_init (Some ''T''))) [])) = [(url, params)]
         \<and> dict_get params ''access_token'' = None"
    by simp
  from h1 h2 a b show ?thesis by blast
qed

text \<open>
  Claim C6, as the code has it. With the session acquired, every optional argument that
  a call leaves out is a key of the parameters of the request, with the value null:
  the operations put every argument into the dict, and nothing removes a \<^verbatim>\<open>None\<close>.
\<close>

theorem omitted_sent_as_null:
  assumes "session self = Bound (Some s)"
  shows "\<exists>url params.
           snd (snd (invoke e c self sent)) = sent @ [(url, params)] \<and>
           (\<forall>k \<in> set (omitted c). dict_get params k = Some JNull)"
proof (cases c)
  case (CreateAccount sn an au)
  then show ?thesis
    by (simp add: sent_simps request_sent [OF assms])
next
  case (CreatePage t cn an au rc)
  then show ?thesis
    by (cases an; cases au)
       (simp_all add: sent_simps request_sent [OF assms] attach_keeps dict_get_Cons opt_def)
next
  case (EditAccountInfo sn an au)
  then show ?thesis
    by (cases sn; cases an; cases au)
       (simp_all add: sent_simps request_sent [OF assms] attach_keeps dict_get_Cons opt_def)
next
  case (EditPage p t cn an au rc)
  then show ?thesis
    by (cases an; cases au)
       (simp_all add: sent_simps request_sent [OF assms] attach_keeps dict_get_Cons opt_def)
next
  case (GetAccountInfo fs)
  then show ?thesis
    by (cases fs)
       (simp_all add: sent_simps request_sent [OF assms] attach_keeps dict_get_Cons opt_def)
next
  case (GetPage p rc)
  then show ?thesis
    by (cases rc)
       (simp_all add: sent_simps request_sent [OF assms] attach_keeps dict_get_Cons opt_def)
next
  case (GetPageList l off)
  then show ?thesis
    by (cases l; cases off)
       (simp_all add: sent_simps request_sent [OF assms] attach_keeps dict_get_Cons opt_def)
next
  case (GetViews p y m d h)
  then show ?thesis
    by (cases y; cases m; cases d; cases h)
       (simp_all add: sent_simps request_sent [OF assms] attach_keeps dict_get_Cons opt_def)
next
  case RevokeAccessToken
  then show ?thesis
    by (simp add: sent_simps request_sent [OF assms])
qed

theorem omitted_sent_as_null_witness:
  "session (aenter (Telegraph_init None)) = Bound (Some \<lparr>timeout_total = 10\<rparr>)
   \<and> (\<exists>url params.
         snd (snd (invoke (answering page_not_found) (GetPage ''Sample-Page-12-15'' None)
                     (aenter (Telegraph_init None)) [])) = [(url, params)]
         \<and> dict_get params ''return_content'' = Some JNull)"
proof -
  have h1: "session (aenter (Telegraph_init None)) = Bound (Some \<lparr>timeout_total = 10\<rparr>)"
    by (simp add: aenter_def)
  from omitted_sent_as_null [OF h1, of "answering page_not_found"
      "GetPage ''Sample-Page-12-15'' None" "[]"]
  have "\<exists>url params.
         snd (snd (invoke (answering page_not_found) (GetPage ''Sample-Page-12-15'' None)
                     (aenter (Telegraph_init None)) [])) = [(url, params)]
         \<and> dict_get params ''return_content'' = Some JNull"
    by simp
  with h1 show ?thesis by blast
qed

text \<open>
  Claim C6 as stated fails: \<^verbatim>\<open>get_page('Sample-Page-12-15')\<close>, with \<^verbatim>\<open>return_content\<close>
  left out, posts \<^verbatim>\<open>{'path': 'Sample-Page-12-15', 'return_content': None}\<close>.
\<close>

theorem omitted_optional_counterexample:
  "snd (snd (get_page (answering page_not_found) ''Sample-Page-12-15'' None
               (aenter (Telegraph_init None)) [])) =
     [(''https://api.telegra.ph//getPage'',
       [(''path'', JStr ''Sample-Page-12-15''), (''return_content'', JNull)])]"
proof -
  have h1: "session (aenter (Telegraph_init None)) = Bound (Some \<lparr>timeout_total = 10\<rparr>)"
    by (simp add: aenter_def)
  show ?thesis
    by (simp add: sent_get_page request_sent [OF h1] opt_def)
       (simp add: aenter_def Telegraph_init_def opt_def)
qed

section \<open>The session\<close>

lemma request_without_session:
  "request e method params (Telegraph_init token) sent = (Inl (AttributeError ''session''), sent)"
  by (simp add: request_def Telegraph_init_def)

text \<open>
  \<^verbatim>\<open>_request\<close> has a guard for a session that is \<^verbatim>\<open>None\<close>, which raises \<^verbatim>\<open>RuntimeError\<close>.
\<close>

lemma session_guard:
  "\<exists>msg. request e method params (self\<lparr>session := Bound None\<rparr>) sent = (Inl (RuntimeError msg), sent)"
  by (simp add: request_def)

text \<open>
  Claim C9. On a client that was constructed and never entered, every operation raises
  before any request is issued and leaves the client as it was. The exception is
  \<^verbatim>\<open>AttributeError\<close>, not the \<^verbatim>\<open>RuntimeError\<close> of the guard: \<^verbatim>\<open>__init__\<close> never assigns
  \<^verbatim>\<open>self.session\<close>, so the guard's own read of it fails.
\<close>

theorem session_never_initialized:
  "invoke e c (Telegraph_init token) sent =
     (Inl (AttributeError ''session''), Telegraph_init token, sent)"
  by (cases c)
     (simp_all add: returning_def request_without_session create_account_def create_page_def
        edit_account_info_def edit_page_def get_account_info_def get_page_def
        get_page_list_def get_views_def revoke_access_token_def)

section \<open>Revoking the token and counting views\<close>

text \<open>
  Claim C1. \<^verbatim>\<open>revoke_access_token\<close> on an entered client issues exactly one request, and
  its URL ends in \<^verbatim>\<open>getViews\<close>, not in \<^verbatim>\<open>revokeAccessToken\<close>; the parameters are the
  stored token alone, when it is truthy, and empty otherwise.
\<close>

theorem revoke_access_token_posts_getViews:
  "snd (snd (revoke_access_token e (aenter self) sent)) =
     sent @ [(base_url self @ ''/getViews'',
              if truthy (Telegraph.access_token self)
              then [(''access_token'', Telegraph.access_token self)] else [])]
   \<and> base_url self @ ''/getViews'' \<noteq> base_url self @ ''/revokeAccessToken''"
proof -
  have h1: "session (aenter self) = Bound (Some \<lparr>timeout_total = 10\<rparr>)"
    by (simp add: aenter_def)
  show ?thesis
    by (simp add: sent_revoke_access_token request_sent [OF h1])
       (simp add: aenter_def dict_set_def)
qed

text \<open>
  Claim C3. \<^verbatim>\<open>get_views\<close> on an entered client issues exactly one request, and its
  parameters have no \<^verbatim>\<open>'path'\<close> key, whatever path the caller gave.
\<close>

theorem get_views_omits_path:
  "\<exists>params.
     snd (snd (get_views e path' year month day hour (aenter self) sent)) =
       sent @ [(base_url self @ ''/getViews'', params)]
     \<and> dict_get params ''path'' = None
     \<and> ''path'' \<notin> set (keys params)"
proof -
  have h1: "session (aenter self) = Bound (Some \<lparr>timeout_total = 10\<rparr>)"
    by (simp add: aenter_def)
  have b: "base_url (aenter self) = base_url self"
    by (simp add: aenter_def)
  show ?thesis
    by (simp add: sent_get_views request_sent [OF h1] b attach_keeps dict_get_Cons dict_get_Nil
          keys_dict_set keys_Cons keys_Nil)
qed

section \<open>The stored token\<close>

text \<open>
  The two operations that assign \<^verbatim>\<open>self.access_token\<close>: a successful call stores the
  \<^verbatim>\<open>access_token\<close> of the account it returns, whatever it is, and a failed call stores
  nothing.
\<close>

lemma create_account_stores_token:
  "create_account e sn an au self sent = (Inr account, self', sent') \<Longrightarrow>
   self' = self\<lparr>Telegraph.access_token := Account.access_token account\<rparr>"
  by (auto simp: create_account_def split: prod.splits sum.splits)

lemma edit_account_info_stores_token:
  "edit_account_info e sn an au self sent = (Inr account, self', sent') \<Longrightarrow>
   self' = self\<lparr>Telegraph.access_token := Account.access_token account\<rparr>"
  by (auto simp: edit_account_info_def split: prod.splits sum.splits)

lemma failed_call_keeps_token:
  "create_account e sn an au self sent = (Inl err, self', sent') \<Longrightarrow> self' = self"
  "edit_account_info e sn' an' au' self sent = (Inl err, self', sent') \<Longrightarrow> self' = self"
  by (auto simp: create_account_def edit_account_info_def split: prod.splits sum.splits)

text \<open>No other operation assigns to the client; \<^verbatim>\<open>revoke_access_token\<close> is among them.\<close>

lemma revoke_access_token_never_stores:
  "fst (snd (revoke_access_token e self sent)) = self"
  by (simp add: revoke_access_token_def split: prod.splits sum.splits)

lemma other_operations_keep_token:
  "fst (snd (create_page e t c an au rc self sent)) = self"
  "fst (snd (edit_page e p t c an au rc self sent)) = self"
  "fst (snd (get_account_info e fs self sent)) = self"
  "fst (snd (get_page e p rc' self sent)) = self"
  "fst (snd (get_page_list e l off self sent)) = self"
  "fst (snd (get_views e p y m d h self sent)) = self"
  by (simp_all add: create_page_def edit_page_def get_account_info_def get_page_def
        get_page_list_def get_views_def split: prod.splits sum.splits)

lemma rotated_account_built:
  "Account_init (JObj [(''short_name'', JStr ''Sandbox''),
                       (''author_name'', JStr ''Anonymous''),
                       (''author_url'', JStr []),
                       (''access_token'', JStr ''new''),
                       (''auth_url'', JStr ''https://edit.telegra.ph/auth/new'')]) =
   Inr (Account.make (JStr ''Sandbox'') (JStr ''Anonymous'') (JStr []) (JStr ''new'')
          (JStr ''https://edit.telegra.ph/auth/new'') JNull)"
  by (simp add: Account_init_def accepts_def keys_def kwarg_def dict_get_def Account.make_def)

lemma request_rotated_account:
  "request (answering rotated_account) method params (aenter self) sent =
     (Inr (JObj [(''short_name'', JStr ''Sandbox''),
                 (''author_name'', JStr ''Anonymous''),
                 (''author_url'', JStr []),
                 (''access_token'', JStr ''new''),
                 (''auth_url'', JStr ''https://edit.telegra.ph/auth/new'')]),
      sent @ [(base_url self @ ''/'' @ method,
               if method \<noteq> ''createAccount'' \<and> truthy (Telegraph.access_token self)
               then dict_set params ''access_token'' (Telegraph.access_token self)
               else params)])"
  by (simp add: request_def aenter_def Let_def answering_def rotated_account_def unwrap_def
        subscript_def dict_get_def)

lemma edit_account_info_replaces_token:
  "Telegraph.access_token
       (fst (snd (edit_account_info (answering rotated_account) None None None
                    (aenter (Telegraph_init (Some ''old''))) []))) = JStr ''new''"
  by (simp add: edit_account_info_def request_rotated_account rotated_account_built
        Account.make_def Let_def)

text \<open>
  Claim C2. A client holding the token \<^verbatim>\<open>'old'\<close> calls \<^verbatim>\<open>revoke_access_token\<close>, and the
  server answers with an account whose \<^verbatim>\<open>access_token\<close> is \<^verbatim>\<open>'new'\<close>. The call succeeds
  and returns that account, and the client still holds \<^verbatim>\<open>'old'\<close>: the returned token is
  not stored. (\<^verbatim>\<open>edit_account_info\<close> against the same answer stores \<^verbatim>\<open>'new'\<close>.)
\<close>

theorem revoke_access_token_keeps_old_token:
  "map_sum id Account.access_token
     (fst (revoke_access_token (answering rotated_account)
             (aenter (Telegraph_init (Some ''old''))) [])) = Inr (JStr ''new'')
   \<and> Telegraph.access_token
       (fst (snd (revoke_access_token (answering rotated_account)
                    (aenter (Telegraph_init (Some ''old''))) []))) = JStr ''old''"
  by (simp add: revoke_access_token_def request_rotated_account rotated_account_built
        Account.make_def)
     (simp add: aenter_def Telegraph_init_def opt_def)

section \<open>The page list\<close>

lemma pages_of_Inr: "(pages_of xs = Inr ps) = (map Page_init xs = map Inr ps)"
proof (induction xs arbitrary: ps)
  case Nil
  then show ?case by auto
next
  case (Cons x xs)
  show ?case
  proof (cases "Page_init x")
    case (Inl err)
    then show ?thesis by (cases ps) auto
  next
    case (Inr page)
    show ?thesis
    proof (cases "pages_of xs")
      case (Inl err)
      with Inr Cons.IH show ?thesis by (cases ps) auto
    next
      case r: (Inr rest)
      with Inr Cons.IH [of rest] Cons.IH show ?thesis by (cases ps) auto
    qed
  qed
qed

lemma unwrap_ok:
  assumes "dict_get envelope ''ok'' = Some (JBool True)"
    and "dict_get envelope ''result'' = Some data"
  shows "unwrap e (Response 200 text (Some (JObj envelope))) = Inr data"
  using assms by (simp add: unwrap_def subscript_def)

lemma request_ok:
  assumes "session self = Bound (Some s)"
    and "\<forall>req. respond e (sent @ [req]) = Response 200 text (Some (JObj envelope))"
    and "dict_get envelope ''ok'' = Some (JBool True)"
    and "dict_get envelope ''result'' = Some data"
  shows "request e method params self sent =
           (Inr data, snd (request e method params self sent))"
  using assms by (simp add: request_def Let_def unwrap_ok)

text \<open>
  The order of the pages. The session is acquired and the server answers with a result
  whose \<^verbatim>\<open>'pages'\<close> is the list \<open>page_datas\<close>. Then \<^verbatim>\<open>get_page_list\<close> issues one request
  and leaves the client unchanged; it succeeds exactly when every element of
  \<open>page_datas\<close> builds a \<^verbatim>\<open>Page\<close>, and what it returns is then those pages, one for each
  element, in the order of \<open>page_datas\<close>. Nothing is assumed of the rest of the result.
\<close>

lemma get_page_list_order:
  assumes "session self = Bound (Some s)"
    and "\<forall>req. respond e (sent @ [req]) = Response 200 text (Some (JObj envelope))"
    and "dict_get envelope ''ok'' = Some (JBool True)"
    and "dict_get envelope ''result'' = Some (JObj result)"
    and "dict_get result ''pages'' = Some (JList page_datas)"
  shows "\<exists>req. snd (get_page_list e limit offset self sent) = (self, sent @ [req])
           \<and> (\<forall>pages. (fst (get_page_list e limit offset self sent) = Inr pages) =
                        (map Page_init page_datas = map Inr pages))"
proof -
  let ?params = "[(''offset'', opt JInt offset), (''limit'', opt JInt limit)]"
  obtain req where req: "snd (request e ''getPageList'' ?params self sent) = sent @ [req]"
    using request_sent [OF assms(1), of e "''getPageList''" ?params sent] by simp
  have r: "request e ''getPageList'' ?params self sent = (Inr (JObj result), sent @ [req])"
    using request_ok [OF assms(1-4), of "''getPageList''" ?params] req by simp
  have "get_page_list e limit offset self sent =
          (case pages_of page_datas of
             Inl err \<Rightarrow> (Inl err, self, sent @ [req])
           | Inr pages \<Rightarrow> (Inr pages, self, sent @ [req]))"
    using assms(5) by (simp add: get_page_list_def r subscript_def iterate_def)
  then show ?thesis
    by (cases "pages_of page_datas") (auto simp: pages_of_Inr [symmetric])
qed

lemma page_data_built: "Page_init (page_data p) = Inr (page_record p)"
  by (simp add: Page_init_def page_data_def accepts_def keys_def kwarg_def dict_get_def
        page_record_def)

lemma get_page_list_of_page_list:
  "get_page_list (answering (page_list n)) limit offset (aenter self) sent =
     (Inr [page_record ''C-03'', page_record ''B-02'', page_record ''A-01''], aenter self,
      sent @ [(base_url self @ ''/getPageList'',
               if truthy (Telegraph.access_token self)
               then dict_set [(''offset'', opt JInt offset), (''limit'', opt JInt limit)]
                      ''access_token'' (Telegraph.access_token self)
               else [(''offset'', opt JInt offset), (''limit'', opt JInt limit)])])"
proof -
  have r: "request (answering (page_list n)) ''getPageList'' params (aenter self) sent =
     (Inr (JObj [(''total_count'', JInt n),
                 (''pages'', JList [page_data ''C-03'', page_data ''B-02'',
                                    page_data ''A-01''])]),
      sent @ [(base_url self @ ''/getPageList'',
               if truthy (Telegraph.access_token self)
               then dict_set params ''access_token'' (Telegraph.access_token self)
               else params)])" for params
    by (simp add: request_def aenter_def Let_def answering_def page_list_def unwrap_def
          subscript_def dict_get_def)
  show ?thesis
    by (simp add: get_page_list_def r Let_def subscript_def dict_get_def iterate_def
          page_data_built)
qed

lemma get_page_list_order_example:
  "session (aenter (Telegraph_init (Some ''T''))) = Bound (Some \<lparr>timeout_total = 10\<rparr>)
   \<and> (\<forall>req. respond (answering (page_list 3)) ([] @ [req]) =
         Response 200 []
           (Some (JObj [(''ok'', JBool True),
                        (''result'',
                         JObj [(''total_count'', JInt 3),
                               (''pages'', JList [page_data ''C-03'', page_data ''B-02'',
                                                  page_data ''A-01''])])])))
   \<and> dict_get [(''ok'', JBool True),
                (''result'',
                 JObj [(''total_count'', JInt 3),
                       (''pages'', JList [page_data ''C-03'', page_data ''B-02'',
                                          page_data ''A-01''])])] ''ok'' = Some (JBool True)
   \<and> dict_get [(''ok'', JBool True),
                (''result'',
                 JObj [(''total_count'', JInt 3),
                       (''pages'', JList [page_data ''C-03'', page_data ''B-02'',
                                          page_data ''A-01''])])] ''result'' =
       Some (JObj [(''total_count'', JInt 3),
                   (''pages'', JList [page_data ''C-03'', page_data ''B-02'',
                                      page_data ''A-01''])])
   \<and> dict_get [(''total_count'', JInt 3),
                (''pages'', JList [page_data ''C-03'', page_data ''B-02'',
                                   page_data ''A-01''])] ''pages'' =
       Some (JList [page_data ''C-03'', page_data ''B-02'', page_data ''A-01''])
   \<and> fst (get_page_list (answering (page_list 3)) None None
             (aenter (Telegraph_init (Some ''T''))) []) =
       Inr [page_record ''C-03'', page_record ''B-02'', page_record ''A-01'']"
proof -
  let ?pages = "JList [page_data ''C-03'', page_data ''B-02'', page_data ''A-01'']"
  let ?result = "[(''total_count'', JInt 3), (''pages'', ?pages)]"
  let ?envelope = "[(''ok'', JBool True), (''result'', JObj ?result)]"
  have h1: "session (aenter (Telegraph_init (Some ''T''))) = Bound (Some \<lparr>timeout_total = 10\<rparr>)"
    by (simp add: aenter_def)
  have h2: "\<forall>req. respond (answering (page_list 3)) ([] @ [req]) =
              Response 200 [] (Some (JObj ?envelope))"
    by (simp add: answering_def page_list_def)
  have h3: "dict_get ?envelope ''ok'' = Some (JBool True)"
    by (simp add: dict_get_def)
  have h4: "dict_get ?envelope ''result'' = Some (JObj ?result)"
    by (simp add: dict_get_def)
  have h5: "dict_get ?result ''pages'' = Some ?pages"
    by (simp add: dict_get_def)
  have built: "map Page_init [page_data ''C-03'', page_data ''B-02'', page_data ''A-01''] =
        map Inr [page_record ''C-03'', page_record ''B-02'', page_record ''A-01'']"
    by (simp add: page_data_built)
  from get_page_list_order [OF h1 h2 h3 h4 h5, of None None] built
  have "fst (get_page_list (answering (page_list 3)) None None
             (aenter (Telegraph_init (Some ''T''))) []) =
       Inr [page_record ''C-03'', page_record ''B-02'', page_record ''A-01'']"
    by blast
  with h1 h2 h3 h4 h5 show ?thesis by blast
qed

text \<open>
  Claim C10. Against a server whose result holds three pages and the total count 3,
  \<^verbatim>\<open>get_page_list\<close> returns the three pages in the server's order. Against the same
  pages with the total count 57 the whole outcome is the same: the returned list, the
  client and the request. The total count reaches the caller in no way.
\<close>

theorem get_page_list_drops_total_count:
  "get_page_list (answering (page_list 3)) None None (aenter (Telegraph_init (Some ''T''))) [] =
   get_page_list (answering (page_list 57)) None None (aenter (Telegraph_init (Some ''T''))) []
   \<and> fst (get_page_list (answering (page_list 3)) None None
             (aenter (Telegraph_init (Some ''T''))) []) =
       Inr [page_record ''C-03'', page_record ''B-02'', page_record ''A-01'']"
  by (simp add: get_page_list_of_page_list)

end
